theory Spec2Isabelle
  imports Complex_Main
begin

section \<open>JavaScript values and their coercions\<close>

text \<open>
  The minimap controller (class \<open>MiniMap\<close>) stores whatever values the caller passes in its
  options object, so the validators and the scroll code see arbitrary JavaScript values.
  The embedding represents the primitive values and functions. A finite number is a
  \<open>real\<close> (rounding of doubles is not represented); the three non-finite numbers are
  constructors of their own. A string is a list of 8-bit code units.
\<close>

datatype jsval =
    JUndefined
  | JNull
  | JBool bool
  | JNum real
  | JNaN
  | JInfinity
  | JNegInfinity
  | JStr string
  | JFun

subsection \<open>Reading a string as a number\<close>

definition isWhiteSpace :: "char \<Rightarrow> bool" where
  "isWhiteSpace c = ((of_char c :: nat) \<in> {9, 10, 11, 12, 13, 32, 160})"

definition isDigit :: "char \<Rightarrow> bool" where
  "isDigit c = (48 \<le> (of_char c :: nat) \<and> (of_char c :: nat) \<le> 57)"

definition digitsValue :: "string \<Rightarrow> nat" where
  "digitsValue ds = foldl (\<lambda>a c. 10 * a + ((of_char c :: nat) - 48)) 0 ds"

definition trimLeft :: "string \<Rightarrow> string" where
  "trimLeft s = dropWhile isWhiteSpace s"

definition trim :: "string \<Rightarrow> string" where
  "trim s = rev (dropWhile isWhiteSpace (rev (dropWhile isWhiteSpace s)))"

fun stripSign :: "string \<Rightarrow> bool \<times> string" where
  "stripSign [] = (False, [])"
| "stripSign (c # cs) =
     (if c = CHR ''-'' then (True, cs)
      else if c = CHR ''+'' then (False, cs)
      else (False, c # cs))"

text \<open>The exponent part of a decimal literal that must end the string: absent, or
  \<open>e\<close>/\<open>E\<close>, an optional sign and at least one digit.\<close>

fun exponentPart :: "string \<Rightarrow> int option" where
  "exponentPart [] = Some 0"
| "exponentPart (c # cs) =
     (if c = CHR ''e'' \<or> c = CHR ''E'' then
        (case stripSign cs of (neg, ds) \<Rightarrow>
           if ds \<noteq> [] \<and> list_all isDigit ds
           then Some (if neg then - int (digitsValue ds) else int (digitsValue ds))
           else None)
      else None)"

definition scale10 :: "real \<Rightarrow> int \<Rightarrow> real" where
  "scale10 m e = (if 0 \<le> e then m * 10 ^ nat e else m / 10 ^ nat (- e))"

text \<open>An unsigned decimal literal spanning the whole string (\<open>12\<close>, \<open>12.\<close>, \<open>12.5\<close>,
  \<open>.5\<close>, each with an optional exponent). The literal \<open>Infinity\<close> is no finite number and
  gives \<open>None\<close> like a string that is no literal.\<close>

definition unsignedDecimal :: "string \<Rightarrow> real option" where
  "unsignedDecimal body =
     (let ip = takeWhile isDigit body;
          r1 = dropWhile isDigit body;
          fp = (case r1 of [] \<Rightarrow> [] | c # t \<Rightarrow> if c = CHR ''.'' then takeWhile isDigit t else []);
          r2 = (case r1 of [] \<Rightarrow> [] | c # t \<Rightarrow> if c = CHR ''.'' then dropWhile isDigit t else r1)
      in if ip = [] \<and> fp = [] then None
         else (case exponentPart r2 of
                 None \<Rightarrow> None
               | Some ex \<Rightarrow> Some (scale10 (real (digitsValue (ip @ fp))) (ex - int (length fp)))))"

definition signedDecimal :: "string \<Rightarrow> real option" where
  "signedDecimal t =
     (case stripSign t of (neg, body) \<Rightarrow>
        (case unsignedDecimal body of
           None \<Rightarrow> None
         | Some v \<Rightarrow> Some (if neg then - v else v)))"

definition radixDigit :: "char \<Rightarrow> nat option" where
  "radixDigit c =
     (let n = (of_char c :: nat) in
      if 48 \<le> n \<and> n \<le> 57 then Some (n - 48)
      else if 97 \<le> n \<and> n \<le> 102 then Some (n - 87)
      else if 65 \<le> n \<and> n \<le> 70 then Some (n - 55)
      else None)"

definition radixValue :: "nat \<Rightarrow> string \<Rightarrow> nat option" where
  "radixValue b ds =
     (if ds \<noteq> [] \<and> list_all (\<lambda>c. case radixDigit c of None \<Rightarrow> False | Some d \<Rightarrow> d < b) ds
      then Some (foldl (\<lambda>a c. b * a + the (radixDigit c)) 0 ds)
      else None)"

text \<open>A literal \<open>0x..\<close>, \<open>0o..\<close> or \<open>0b..\<close> (either case of the letter), without sign.\<close>

fun nonDecimal :: "string \<Rightarrow> nat option" where
  "nonDecimal (z # x # ds) =
     (if z \<noteq> CHR ''0'' then None
      else if x = CHR ''x'' \<or> x = CHR ''X'' then radixValue 16 ds
      else if x = CHR ''o'' \<or> x = CHR ''O'' then radixValue 8 ds
      else if x = CHR ''b'' \<or> x = CHR ''B'' then radixValue 2 ds
      else None)"
| "nonDecimal _ = None"

text \<open>\<open>Number(s)\<close> for a string: surrounding white space is dropped, the empty string is
  0, anything that is not one numeric literal is \<open>NaN\<close>. \<open>None\<close> stands for a result that
  is not a finite number.\<close>

definition stringToNumber :: "string \<Rightarrow> real option" where
  "stringToNumber s =
     (let t = trim s in
      if t = [] then Some 0
      else (case nonDecimal t of
              Some n \<Rightarrow> Some (real n)
            | None \<Rightarrow> signedDecimal t))"

text \<open>Whether \<open>parseFloat(s)\<close> is a number other than \<open>NaN\<close>: after leading white space
  and an optional sign the string starts a decimal literal.\<close>

definition parseFloatDefined :: "string \<Rightarrow> bool" where
  "parseFloatDefined s =
     (case stripSign (trimLeft s) of (neg, b) \<Rightarrow>
        take 8 b = ''Infinity'' \<or>
        (case b of
           [] \<Rightarrow> False
         | c # cs \<Rightarrow> isDigit c \<or> (c = CHR ''.'' \<and> (case cs of [] \<Rightarrow> False | d # _ \<Rightarrow> isDigit d))))"

subsection \<open>Coercions\<close>

text \<open>\<open>ToNumber\<close>, with \<open>None\<close> for \<open>NaN\<close> and the two infinities.\<close>

fun toNumber :: "jsval \<Rightarrow> real option" where
  "toNumber JUndefined = None"
| "toNumber JNull = Some 0"
| "toNumber (JBool b) = Some (if b then 1 else 0)"
| "toNumber (JNum x) = Some x"
| "toNumber JNaN = None"
| "toNumber JInfinity = None"
| "toNumber JNegInfinity = None"
| "toNumber (JStr s) = stringToNumber s"
| "toNumber JFun = None"

fun toBoolean :: "jsval \<Rightarrow> bool" where
  "toBoolean JUndefined = False"
| "toBoolean JNull = False"
| "toBoolean (JBool b) = b"
| "toBoolean (JNum x) = (x \<noteq> 0)"
| "toBoolean JNaN = False"
| "toBoolean JInfinity = True"
| "toBoolean JNegInfinity = True"
| "toBoolean (JStr s) = (s \<noteq> [])"
| "toBoolean JFun = True"

text \<open>
  \<open>parseInt\<close> applied to a number reads the integer part of the number's decimal notation:
  truncation toward zero. (JavaScript prints a double below \<open>1e-6\<close> or from \<open>1e21\<close> on in
  exponent notation; a \<open>real\<close> has no such notation, and the embedding keeps the integer
  part there as well.)
\<close>

definition parseInt :: "real \<Rightarrow> int" where
  "parseInt x = (if 0 \<le> x then \<lfloor>x\<rfloor> else \<lceil>x\<rceil>)"

text \<open>Division of two finite numbers; \<open>None\<close> when the divisor is zero and the
  JavaScript quotient is \<open>NaN\<close> or an infinity.\<close>

definition numDiv :: "real \<Rightarrow> real \<Rightarrow> real option" where
  "numDiv a b = (if b = 0 then None else Some (a / b))"

text \<open>\<open>isNumeric\<close> and \<open>isFunction\<close> of the jQuery ports:
  \<^verbatim>\<open>!isNaN(parseFloat(n)) && isFinite(n)\<close> and \<^verbatim>\<open>typeof fn === 'function'\<close>. \<open>parseFloat\<close>
  reads the string form of its argument; the string form of a finite number or of
  \<open>Infinity\<close> starts a decimal literal, that of \<open>NaN\<close>, \<open>undefined\<close>, \<open>null\<close>, a boolean
  does not. A function is never finite as a number.\<close>

fun isNumeric :: "jsval \<Rightarrow> bool" where
  "isNumeric (JNum x) = True"
| "isNumeric (JStr s) = (parseFloatDefined s \<and> stringToNumber s \<noteq> None)"
| "isNumeric _ = False"

fun isFunction :: "jsval \<Rightarrow> bool" where
  "isFunction JFun = True"
| "isFunction _ = False"


section \<open>The controller instance, the window and pointer events\<close>

text \<open>A JavaScript object is a list of its own properties in enumeration order. Reading a
  missing property gives \<open>undefined\<close>; writing updates in place or appends.\<close>

type_synonym jsobj = "(string \<times> jsval) list"

definition getProp :: "jsobj \<Rightarrow> string \<Rightarrow> jsval" where
  "getProp obj k = (case map_of obj k of None \<Rightarrow> JUndefined | Some v \<Rightarrow> v)"

fun setProp :: "jsobj \<Rightarrow> string \<Rightarrow> jsval \<Rightarrow> jsobj" where
  "setProp [] k v = [(k, v)]"
| "setProp ((k', v') # rest) k v =
     (if k' = k then (k, v) # rest else (k', v') # setProp rest k v)"

text \<open>The fields of a \<open>MiniMap\<close> instance that are not DOM nodes. \<open>resizeCalls\<close> is not a
  field of the source: it counts the invocations of \<open>this.onResizeHandler\<close> (the layout
  pass), whose style computations are not part of this development.\<close>

record minimap =
  shown :: bool
  mousedown :: bool
  onSmoothScroll :: bool
  lastTouchType :: string
  settings :: jsobj
  resizeCalls :: nat

text \<open>The variables captured by one \<open>smoothScroll\<close> closure of \<open>scrollTop\<close>, and the
  interval it was registered with.\<close>

record animation =
  anext :: real
  acount :: int
  adirection :: bool
  aunitScroll :: real
  atarget :: real
  aunitDelay :: real

text \<open>The window: its scroll offsets (\<open>window.scrollTo\<close> is taken to move the page to the
  offsets it is given), the running interval timers by timer id, and the value of
  the window's own property \<open>onSmoothScroll\<close>, which \<open>scrollTop\<close>'s timer callback
  writes (see \<open>smoothScroll\<close> below).\<close>

record window =
  scrollX :: real
  scrollY :: real
  timers :: "(nat \<times> animation) list"
  nextTimer :: nat
  windowOnSmoothScroll :: jsval

record world =
  inst :: minimap
  win :: window

text \<open>The measurements \<open>scrollTop\<close> reads from the DOM through the jQuery ports:
  \<open>width(window)\<close>, \<open>height(window)\<close>, \<open>width(baseElement)\<close>, \<open>height(baseElement)\<close>,
  \<open>baseElement.offsetTop\<close>, \<open>outerHeight(region)\<close> and \<open>outerHeight(baseElement)\<close>.\<close>

record geometry =
  winWidth :: real
  winHeight :: real
  baseWidth :: real
  baseHeight :: real
  baseOffsetTop :: real
  regionOuterHeight :: real
  baseOuterHeight :: real

record mouse_event =
  etype :: string
  clientY :: real
  propagationStopped :: bool

text \<open>\<open>_scale\<close>: each component is \<open>None\<close> when it is not a finite number.\<close>

record scale =
  scaleX :: "real option"
  scaleY :: "real option"

definition scaleOf :: "geometry \<Rightarrow> minimap \<Rightarrow> scale" where
  "scaleOf g m =
     \<lparr> scaleX = (case numDiv (winWidth g) (baseWidth g) of
                   None \<Rightarrow> None
                 | Some q \<Rightarrow> (case toNumber (getProp (settings m) ''widthRatio'') of
                               None \<Rightarrow> None
                             | Some r \<Rightarrow> Some (q * r))),
       scaleY = (case numDiv (winHeight g) (baseHeight g) of
                   None \<Rightarrow> None
                 | Some q \<Rightarrow> (case toNumber (getProp (settings m) ''heightRatio'') of
                               None \<Rightarrow> None
                             | Some r \<Rightarrow> Some (q * r))) \<rparr>"

definition scrollTo :: "real \<Rightarrow> real \<Rightarrow> window \<Rightarrow> window" where
  "scrollTo x y w = w\<lparr>scrollX := x, scrollY := y\<rparr>"

definition setInterval :: "animation \<Rightarrow> window \<Rightarrow> window" where
  "setInterval a w = w\<lparr>timers := timers w @ [(nextTimer w, a)], nextTimer := Suc (nextTimer w)\<rparr>"

definition clearInterval :: "nat \<Rightarrow> window \<Rightarrow> window" where
  "clearInterval t w = w\<lparr>timers := filter (\<lambda>p. fst p \<noteq> t) (timers w)\<rparr>"

subsection \<open>The step parameters of the animated scroll\<close>

text \<open>
  Lines 536 to 547 of \<open>scrollTop\<close>: \<open>r = delay / distance\<close>, \<open>unitScroll = 1\<close>,
  \<open>unitDelay = 4\<close>, then the three branches on \<open>r\<close>. The result is
  \<open>(unitScroll, unitDelay)\<close>. A zero distance with a positive delay makes \<open>r\<close> the
  JavaScript \<open>Infinity\<close>, for which \<open>r >= 4\<close> holds; the other divisions by zero leave the
  finite numbers and give \<open>None\<close>.
\<close>

definition stepParams :: "real \<Rightarrow> real \<Rightarrow> (real \<times> real) option" where
  "stepParams delay distance =
     (if distance = 0 then
        (if 0 < delay then Some (1, real_of_int (parseInt 1)) else None)
      else
        (let r = delay / distance in
         if r \<ge> 4 then Some (1, real_of_int (parseInt 1))
         else if r \<ge> 1 then Some (real_of_int (parseInt r) * 4, 4)
         else (case numDiv 4 r of None \<Rightarrow> None | Some u \<Rightarrow> Some (u, 4))))"

subsection \<open>scrollTop\<close>

text \<open>
  The target offset of line 525. \<open>None\<close> when the vertical scale or the quotient is not a
  finite number.
\<close>

definition eventTarget :: "geometry \<Rightarrow> minimap \<Rightarrow> mouse_event \<Rightarrow> real option" where
  "eventTarget g m e =
     (case scaleY (scaleOf g m) of
        None \<Rightarrow> None
      | Some sy \<Rightarrow>
          (case toNumber (getProp (settings m) ''offsetHeightRatio'') of
             None \<Rightarrow> None
           | Some ohr \<Rightarrow>
               (let offsetTop = winHeight g * ohr;
                    top = baseOffsetTop g * sy;
                    regionHeight = regionOuterHeight g
                in numDiv (clientY e - regionHeight / 2 - offsetTop + top) sy)))"

text \<open>
  The branch of lines 530 to 565, entered on a click with smooth scrolling enabled. The
  instance's flag is cleared and then set; the closure starts at the current offset and
  the timer is registered.
\<close>

definition startSmoothScroll :: "geometry \<Rightarrow> real \<Rightarrow> world \<Rightarrow> world option" where
  "startSmoothScroll g target0 w =
     (let current = scrollY (win w);
          maxTarget = baseOuterHeight g;
          target = max target0 (min target0 maxTarget);
          direction = (target > current)
      in case toNumber (getProp (settings (inst w)) ''smoothScrollDelay'') of
           None \<Rightarrow> None
         | Some delay \<Rightarrow>
             (let distance = \<bar>current - target\<bar> in
              case stepParams delay distance of
                None \<Rightarrow> None
              | Some (unitScroll, unitDelay) \<Rightarrow>
                  (case numDiv distance unitScroll of
                     None \<Rightarrow> None
                   | Some q \<Rightarrow>
                       Some (w\<lparr> inst := (inst w)\<lparr>onSmoothScroll := True\<rparr>,
                                  win := setInterval
                                    \<lparr> anext = current, acount = parseInt q,
                                      adirection = direction, aunitScroll = unitScroll,
                                      atarget = target, aunitDelay = unitDelay \<rparr> (win w) \<rparr>))))"

text \<open>
  \<open>scrollTop(e)\<close>. The result is the event and the world after the call; \<open>None\<close> when a
  number of the computation is not finite.
\<close>

definition scrollTop :: "geometry \<Rightarrow> mouse_event \<Rightarrow> world \<Rightarrow> (mouse_event \<times> world) option" where
  "scrollTop g e w =
     (if \<not> shown (inst w) then Some (e, w)
      else
        (case eventTarget g (inst w) e of
           None \<Rightarrow> None
         | Some target \<Rightarrow>
             (if etype e = ''click'' \<and> toBoolean (getProp (settings (inst w)) ''smoothScroll'')
              then (case startSmoothScroll g target w of
                      None \<Rightarrow> None
                    | Some w' \<Rightarrow> Some (e\<lparr>propagationStopped := True\<rparr>, w'))
              else Some (e\<lparr>propagationStopped := True\<rparr>,
                         w\<lparr>win := scrollTo (scrollX (win w)) target (win w)\<rparr>))))"

subsection \<open>The timer callback\<close>

text \<open>
  \<open>smoothScroll\<close> (lines 554 to 563) is a \<^verbatim>\<open>function () { ... }\<close> expression handed to
  \<open>window.setInterval\<close>, not an arrow function like the event handlers of the class. The
  browser calls a timer callback with the window as its receiver, so the assignment
  \<^verbatim>\<open>this.onSmoothScroll = false\<close> inside it writes the property of the window; the
  \<open>MiniMap\<close> instance is not touched. \<open>next\<close>, \<open>count\<close>, \<open>direction\<close>, \<open>unitScroll\<close>,
  \<open>target\<close> and \<open>timer\<close> are the captured variables.
\<close>

definition smoothScroll :: "nat \<Rightarrow> animation \<Rightarrow> world \<Rightarrow> world" where
  "smoothScroll timer a w =
     (let next1 = anext a + (if adirection a then aunitScroll a else - aunitScroll a);
          count1 = acount a - 1
      in if count1 \<le> 0 then
           (let w1 = clearInterval timer (win w);
                w2 = w1\<lparr>windowOnSmoothScroll := JBool False\<rparr>;
                next2 = atarget a
            in w\<lparr>win := scrollTo (scrollX w2) next2 w2\<rparr>)
         else
           (let w1 = (win w)\<lparr>timers := map (\<lambda>p. if fst p = timer
                                                  then (timer, a\<lparr>anext := next1, acount := count1\<rparr>)
                                                  else p) (timers (win w))\<rparr>
            in w\<lparr>win := scrollTo (scrollX w1) next1 w1\<rparr>))"

text \<open>One firing of the interval timer \<open>timer\<close>: a cleared timer does not fire.\<close>

definition tick :: "nat \<Rightarrow> world \<Rightarrow> world" where
  "tick timer w =
     (case map_of (timers (win w)) timer of
        None \<Rightarrow> w
      | Some a \<Rightarrow> smoothScroll timer a w)"

fun ticks :: "nat \<Rightarrow> nat \<Rightarrow> world \<Rightarrow> world" where
  "ticks timer 0 w = w"
| "ticks timer (Suc n) w = ticks timer n (tick timer w)"

text \<open>The signed amount one firing adds to \<open>next\<close>:
  \<^verbatim>\<open>direction ? unitScroll : -unitScroll\<close>.\<close>

definition stepOf :: "animation \<Rightarrow> real" where
  "stepOf a = (if adirection a then aunitScroll a else - aunitScroll a)"

subsection \<open>The handlers that call scrollTop\<close>

definition onMouseMoveHandler :: "geometry \<Rightarrow> mouse_event \<Rightarrow> world \<Rightarrow> (mouse_event \<times> world) option" where
  "onMouseMoveHandler g e w =
     (if \<not> mousedown (inst w) \<or> onSmoothScroll (inst w) then Some (e, w)
      else scrollTop g e w)"

definition onClickHandler :: "geometry \<Rightarrow> mouse_event \<Rightarrow> world \<Rightarrow> (mouse_event \<times> world) option" where
  "onClickHandler g e w =
     (case scrollTop g e w of
        None \<Rightarrow> None
      | Some (e', w') \<Rightarrow> Some (e', w'\<lparr>inst := (inst w')\<lparr>mousedown := False\<rparr>\<rparr>))"


text \<open>The mouse-down and mouse-up handlers set and clear the drag flag. (They also toggle
  the marker classes \<open>noselect\<close> and \<open>dragging\<close>, which no definition here reads.)\<close>

definition onMouseDownHandler :: "world \<Rightarrow> world" where
  "onMouseDownHandler w = w\<lparr>inst := (inst w)\<lparr>mousedown := True\<rparr>\<rparr>"

definition onMouseUpHandler :: "world \<Rightarrow> world" where
  "onMouseUpHandler w = w\<lparr>inst := (inst w)\<lparr>mousedown := False\<rparr>\<rparr>"

section \<open>Configuration validation\<close>

text \<open>
  An error raised by the code: \<open>Error prefix v\<close> is \<^verbatim>\<open>new Error(prefix + v)\<close>, the message
  being the literal text of the source followed by the string form of the value;
  \<open>TypeError\<close> is the error the language itself raises for a call of something that is
  no function or a property read on \<open>undefined\<close> or \<open>null\<close>.
\<close>

datatype error = Error string jsval | TypeError string

text \<open>The comparisons \<open>value < c\<close>, \<open>value <= c\<close> and \<open>value > c\<close> of a value with a
  number literal: the value is read as a number, and every comparison with \<open>NaN\<close> is
  false.\<close>

fun numLt :: "jsval \<Rightarrow> real \<Rightarrow> bool" where
  "numLt JInfinity c = False"
| "numLt JNegInfinity c = True"
| "numLt v c = (case toNumber v of None \<Rightarrow> False | Some x \<Rightarrow> x < c)"

fun numLe :: "jsval \<Rightarrow> real \<Rightarrow> bool" where
  "numLe JInfinity c = False"
| "numLe JNegInfinity c = True"
| "numLe v c = (case toNumber v of None \<Rightarrow> False | Some x \<Rightarrow> x \<le> c)"

fun numGt :: "jsval \<Rightarrow> real \<Rightarrow> bool" where
  "numGt JInfinity c = True"
| "numGt JNegInfinity c = False"
| "numGt v c = (case toNumber v of None \<Rightarrow> False | Some x \<Rightarrow> c < x)"

text \<open>\<open>value | 0\<close>: the value as a number (\<open>NaN\<close> and the infinities count as 0),
  truncated, reduced modulo \<open>2^32\<close> and read as a signed 32-bit integer.\<close>

definition toInt32 :: "jsval \<Rightarrow> int" where
  "toInt32 v =
     (case toNumber v of
        None \<Rightarrow> 0
      | Some x \<Rightarrow>
          (let n = parseInt x mod 2 ^ 32
           in if n \<ge> 2 ^ 31 then n - 2 ^ 32 else n))"

text \<open>\<open>a === b\<close> for a number \<open>a\<close> that is an integer and any value \<open>b\<close>.\<close>

fun strictEqInt :: "int \<Rightarrow> jsval \<Rightarrow> bool" where
  "strictEqInt n (JNum x) = (real_of_int n = x)"
| "strictEqInt n _ = False"

definition validateBoolean :: "string \<Rightarrow> jsval \<Rightarrow> error + unit" where
  "validateBoolean msg v =
     (if v \<noteq> JBool True \<and> v \<noteq> JBool False then Inl (Error msg v) else Inr ())"

text \<open>The fourteen entries of \<open>propValidators\<close>, in the order of the source.\<close>

definition allowClickValidator :: "jsval \<Rightarrow> error + unit" where
  "allowClickValidator v = validateBoolean ''Invalid allowClick: '' v"

definition fadeHoverValidator :: "jsval \<Rightarrow> error + unit" where
  "fadeHoverValidator v = validateBoolean ''Invalid fadeHover: '' v"

definition hoverOpacityValidator :: "jsval \<Rightarrow> error + unit" where
  "hoverOpacityValidator v =
     (if \<not> isNumeric v \<or> numLt v 0 \<or> numGt v 1
      then Inl (Error ''Invalid hoverOpacity: '' v) else Inr ())"

definition hoverFadeSpeedValidator :: "jsval \<Rightarrow> error + unit" where
  "hoverFadeSpeedValidator v =
     (if \<not> isNumeric v \<or> numLt v 0
      then Inl (Error ''Invalid hoverFadeSpeed: '' v) else Inr ())"

definition disableFindValidator :: "jsval \<Rightarrow> error + unit" where
  "disableFindValidator v = validateBoolean ''Invalid disableFind: '' v"

definition heightRatioValidator :: "jsval \<Rightarrow> error + unit" where
  "heightRatioValidator v =
     (if \<not> isNumeric v \<or> numLe v 0 \<or> numGt v 1
      then Inl (Error ''Invalid heightRatio: '' v) else Inr ())"

definition widthRatioValidator :: "jsval \<Rightarrow> error + unit" where
  "widthRatioValidator v =
     (if \<not> isNumeric v \<or> numLe v 0 \<or> numGt v (1 / 2)
      then Inl (Error ''Invalid widthRatio: '' v) else Inr ())"

definition offsetHeightRatioValidator :: "jsval \<Rightarrow> error + unit" where
  "offsetHeightRatioValidator v =
     (if \<not> isNumeric v \<or> numLt v 0 \<or> numGt v (9 / 10)
      then Inl (Error ''Invalid offsetHeightRatio: '' v) else Inr ())"

definition offsetWidthRatioValidator :: "jsval \<Rightarrow> error + unit" where
  "offsetWidthRatioValidator v =
     (if \<not> isNumeric v \<or> numLt v 0 \<or> numGt v (9 / 10)
      then Inl (Error ''Invalid offsetWidthRatio: '' v) else Inr ())"

definition validPositions :: "jsval list" where
  "validPositions = [JStr ''right'', JStr ''left'']"

definition positionValidator :: "jsval \<Rightarrow> error + unit" where
  "positionValidator v =
     (if v \<notin> set validPositions then Inl (Error ''Invalid position: '' v) else Inr ())"

definition smoothScrollDelayValidator :: "jsval \<Rightarrow> error + unit" where
  "smoothScrollDelayValidator v =
     (if \<not> strictEqInt (toInt32 v) v \<or> numLt v 4
      then Inl (Error ''Invalid smoothScrollDelay(in ms): '' v) else Inr ())"

definition touchValidator :: "jsval \<Rightarrow> error + unit" where
  "touchValidator v = Inr ()"

definition smoothScrollValidator :: "jsval \<Rightarrow> error + unit" where
  "smoothScrollValidator v = Inr ()"

definition onPreviewChangeValidator :: "jsval \<Rightarrow> error + unit" where
  "onPreviewChangeValidator v =
     (if \<not> toBoolean v \<or> \<not> isFunction v
      then Inl (Error ''Invalid onPreviewChange: '' v) else Inr ())"

definition ownValidators :: "(string \<times> (jsval \<Rightarrow> error + unit)) list" where
  "ownValidators =
     [(''allowClick'', allowClickValidator),
      (''fadeHover'', fadeHoverValidator),
      (''hoverOpacity'', hoverOpacityValidator),
      (''hoverFadeSpeed'', hoverFadeSpeedValidator),
      (''disableFind'', disableFindValidator),
      (''heightRatio'', heightRatioValidator),
      (''widthRatio'', widthRatioValidator),
      (''offsetHeightRatio'', offsetHeightRatioValidator),
      (''offsetWidthRatio'', offsetWidthRatioValidator),
      (''position'', positionValidator),
      (''smoothScrollDelay'', smoothScrollDelayValidator),
      (''touch'', touchValidator),
      (''smoothScroll'', smoothScrollValidator),
      (''onPreviewChange'', onPreviewChangeValidator)]"

text \<open>
  \<open>propValidators\<close> is an object literal, so \<^verbatim>\<open>propValidators[key]\<close> also finds the members
  it inherits from \<open>Object.prototype\<close>. All of them are truthy, and \<open>_validateProps\<close> calls
  what it finds as a plain function (receiver \<open>undefined\<close>) on the property value:
  \<open>Object\<close> and \<open>toString\<close> return; \<open>isPrototypeOf\<close> returns for a primitive and needs its
  receiver for a function; the others need their receiver first and raise a
  \<open>TypeError\<close>; \<open>__proto__\<close> yields the prototype object, which cannot be called.
\<close>

definition inheritedMember :: "string \<Rightarrow> (jsval \<Rightarrow> error + unit) option" where
  "inheritedMember k =
     (if k = ''constructor'' \<or> k = ''toString'' then Some (\<lambda>v. Inr ())
      else if k = ''isPrototypeOf''
        then Some (\<lambda>v. if v = JFun then Inl (TypeError ''Cannot convert undefined or null to object'')
                        else Inr ())
      else if k \<in> set [''hasOwnProperty'', ''propertyIsEnumerable'', ''valueOf'',
                        ''toLocaleString'', ''__defineGetter__'', ''__defineSetter__'',
                        ''__lookupGetter__'', ''__lookupSetter__'']
        then Some (\<lambda>v. Inl (TypeError ''Cannot convert undefined or null to object''))
      else if k = ''__proto__''
        then Some (\<lambda>v. Inl (TypeError ''validator is not a function''))
      else None)"

definition propValidators :: "string \<Rightarrow> (jsval \<Rightarrow> error + unit) option" where
  "propValidators k =
     (case map_of ownValidators k of
        Some f \<Rightarrow> Some f
      | None \<Rightarrow> inheritedMember k)"

text \<open>\<open>_validateProps\<close>: the keys in enumeration order, stopping at the first error.\<close>

fun validateProps :: "jsobj \<Rightarrow> error + unit" where
  "validateProps [] = Inr ()"
| "validateProps ((key, v) # rest) =
     (case propValidators key of
        Some validator \<Rightarrow>
          (case validator v of
             Inl err \<Rightarrow> Inl err
           | Inr _ \<Rightarrow> validateProps rest)
      | None \<Rightarrow> Inl (Error ''Invalid validation property: '' v))"


section \<open>Construction of the settings and the setters\<close>

text \<open>
  \<open>Object.assign({}, defaults, options)\<close> copies the own properties of \<open>defaults\<close> and then
  those of \<open>options\<close> with ordinary assignments. An assignment to an existing key keeps the
  key's place; a new key that is an array index is enumerated before all other keys, in
  ascending order; any other new key goes last. An assignment to \<open>__proto__\<close> reaches the
  inherited setter and creates no own property.
\<close>

definition isArrayIndex :: "string \<Rightarrow> bool" where
  "isArrayIndex k =
     (k \<noteq> [] \<and> list_all isDigit k \<and> (k = ''0'' \<or> hd k \<noteq> CHR ''0'') \<and>
      int (digitsValue k) < 4294967295)"

fun insertIndexKey :: "jsobj \<Rightarrow> string \<Rightarrow> jsval \<Rightarrow> jsobj" where
  "insertIndexKey [] k v = [(k, v)]"
| "insertIndexKey ((k', v') # rest) k v =
     (if isArrayIndex k' \<and> digitsValue k' < digitsValue k
      then (k', v') # insertIndexKey rest k v
      else (k, v) # (k', v') # rest)"

definition assignProp :: "jsobj \<Rightarrow> string \<times> jsval \<Rightarrow> jsobj" where
  "assignProp obj p =
     (case p of (k, v) \<Rightarrow>
        if k = ''__proto__'' then obj
        else if k \<in> fst ` set obj then setProp obj k v
        else if isArrayIndex k then insertIndexKey obj k v
        else obj @ [(k, v)])"

definition objectAssign :: "jsobj \<Rightarrow> jsobj \<Rightarrow> jsobj" where
  "objectAssign defs options = foldl assignProp (foldl assignProp [] defs) options"

definition defaults :: jsobj where
  "defaults =
     [(''allowClick'', JBool True),
      (''fadeHover'', JBool False),
      (''hoverOpacity'', JNum (4 / 10)),
      (''hoverFadeSpeed'', JNum (1 / 2)),
      (''heightRatio'', JNum (6 / 10)),
      (''widthRatio'', JNum (5 / 100)),
      (''offsetHeightRatio'', JNum (35 / 1000)),
      (''offsetWidthRatio'', JNum (35 / 1000)),
      (''position'', JStr ''right''),
      (''touch'', JBool True),
      (''smoothScroll'', JBool True),
      (''smoothScrollDelay'', JNum 200),
      (''onPreviewChange'', JFun),
      (''disableFind'', JBool False)]"

text \<open>\<open>String.prototype.toLowerCase\<close> on code units below 256: the letters A to Z and the
  capital letters of the Latin-1 supplement (\<open>0xC0\<close> to \<open>0xDE\<close> without the multiplication
  sign \<open>0xD7\<close>) move up by 32.\<close>

definition lowerChar :: "char \<Rightarrow> char" where
  "lowerChar c =
     (let n = (of_char c :: nat) in
      if (65 \<le> n \<and> n \<le> 90) \<or> (192 \<le> n \<and> n \<le> 222 \<and> n \<noteq> 215)
      then char_of (n + 32) else c)"

definition toLowerCase :: "string \<Rightarrow> string" where
  "toLowerCase s = map lowerChar s"

text \<open>
  Lines 153 to 157 of the constructor: the settings are merged, \<open>position\<close> is replaced by
  its lower-case form (a \<open>TypeError\<close> when it is no string), and the result is validated.
\<close>

definition constructorSettings :: "jsobj \<Rightarrow> error + jsobj" where
  "constructorSettings options =
     (let merged = objectAssign defaults options in
      case getProp merged ''position'' of
        JStr p \<Rightarrow>
          (let settings1 = setProp merged ''position'' (JStr (toLowerCase p)) in
           case validateProps settings1 of
             Inl err \<Rightarrow> Inl err
           | Inr _ \<Rightarrow> Inr settings1)
      | _ \<Rightarrow> Inl (TypeError ''settings.position.toLowerCase is not a function''))"

text \<open>One invocation of \<open>this.onResizeHandler\<close>.\<close>

definition onResizeHandler :: "minimap \<Rightarrow> minimap" where
  "onResizeHandler m = m\<lparr>resizeCalls := Suc (resizeCalls m)\<rparr>"

text \<open>
  The setters return the error raised, if any, together with the instance as the call
  leaves it. \<open>setPosition\<close> also clears the style property of the old side on the region
  and the preview element; styles are not part of this development.
\<close>

definition setPosition :: "jsval \<Rightarrow> minimap \<Rightarrow> error option \<times> minimap" where
  "setPosition position m =
     (let oldValue = getProp (settings m) ''position'' in
      case positionValidator position of
        Inl err \<Rightarrow> (Some err, m)
      | Inr _ \<Rightarrow>
          (let m1 = m\<lparr>settings := setProp (settings m) ''position'' position\<rparr>
           in if oldValue \<noteq> getProp (settings m1) ''position''
              then (None, onResizeHandler m1)
              else (None, m1)))"



definition setterNames :: "string list" where
  "setterNames = [''heightRatio'', ''widthRatio'', ''offsetHeightRatio'', ''offsetWidthRatio'',
                  ''smoothScroll'', ''smoothScrollDelay'']"


section \<open>The document and the DOM part of the constructor\<close>

text \<open>
  A DOM node is an element with its tag name, its \<open>className\<close>, its inline style (the
  properties assigned so far, latest first) and its child nodes, or a text node. Nodes
  are values: \<open>cloneNode(true)\<close> is the identity on them.
\<close>

datatype node =
    Element (tagName: string) (className: string) (style: "(string \<times> string) list")
            (childNodes: "node list")
  | TextNode string

definition cloneNode :: "node \<Rightarrow> node" where
  "cloneNode n = n"

text \<open>The class selector \<open>.c\<close> matches an element when \<open>c\<close> is one of the tokens of
  its class attribute, split at ASCII white space.\<close>

definition isAsciiSpace :: "char \<Rightarrow> bool" where
  "isAsciiSpace c = ((of_char c :: nat) \<in> {9, 10, 12, 13, 32})"

fun classTokens :: "string \<Rightarrow> string \<Rightarrow> string list" where
  "classTokens [] cur = (if cur = [] then [] else [rev cur])"
| "classTokens (c # cs) cur =
     (if isAsciiSpace c
      then (if cur = [] then classTokens cs [] else rev cur # classTokens cs [])
      else classTokens cs (c # cur))"

fun matchesClass :: "string \<Rightarrow> node \<Rightarrow> bool" where
  "matchesClass c (Element t cn st kids) = (c \<in> set (classTokens cn []))"
| "matchesClass c (TextNode txt) = False"


text \<open>\<open>remove(selectAll('.c', element))\<close>: every match is taken out of its parent.\<close>

fun removeSelected :: "string \<Rightarrow> node \<Rightarrow> node" where
  "removeSelected c (Element t cn st kids) =
     Element t cn st (map (removeSelected c) (filter (\<lambda>k. \<not> matchesClass c k) kids))"
| "removeSelected c (TextNode txt) = TextNode txt"

text \<open>
  \<open>remove(selectAll('.minimap .noselect', element))\<close>: the selector has a descendant
  combinator, so it matches a descendant of the element with the class \<open>noselect\<close> that
  has an ancestor with the class \<open>minimap\<close>. The flag says whether an ancestor of the node
  has that class; the element itself may be that ancestor.
\<close>

fun removeNoselectInMinimap :: "bool \<Rightarrow> node \<Rightarrow> node" where
  "removeNoselectInMinimap anc (Element t cn st kids) =
     Element t cn st
       (map (removeNoselectInMinimap (anc \<or> ''minimap'' \<in> set (classTokens cn [])))
            (filter (\<lambda>k. \<not> ((anc \<or> ''minimap'' \<in> set (classTokens cn [])) \<and> matchesClass ''noselect'' k))
                    kids))"
| "removeNoselectInMinimap anc (TextNode txt) = TextNode txt"

text \<open>\<open>hasClass\<close>, \<open>addClass\<close> and \<open>cssObjAssign\<close> of the jQuery ports. \<open>hasClass\<close> tests
  the regular expression \<^verbatim>\<open>(\s|^)name(\s|$)\<close> on the \<open>className\<close> string: an occurrence
  of the name that starts the string or follows a white-space character and that ends
  the string or is followed by one.\<close>

fun classMatch :: "bool \<Rightarrow> string \<Rightarrow> string \<Rightarrow> bool" where
  "classMatch b [] x = (b \<and> x = [])"
| "classMatch b (c # cs) x =
     ((b \<and> take (length x) (c # cs) = x \<and>
        (case drop (length x) (c # cs) of [] \<Rightarrow> True | d # _ \<Rightarrow> isWhiteSpace d))
      \<or> classMatch (isWhiteSpace c) cs x)"

fun hasClass :: "node \<Rightarrow> string \<Rightarrow> bool" where
  "hasClass (Element t cn st kids) c = classMatch True cn c"
| "hasClass (TextNode txt) c = False"

fun addClass :: "node \<Rightarrow> string \<Rightarrow> node" where
  "addClass (Element t cn st kids) c =
     (if hasClass (Element t cn st kids) c then Element t cn st kids
      else Element t (cn @ '' '' @ c) st kids)"
| "addClass (TextNode txt) c = TextNode txt"

fun cssObjAssign :: "node \<Rightarrow> (string \<times> string) list \<Rightarrow> node" where
  "cssObjAssign (Element t cn st kids) props = Element t cn (rev props @ st) kids"
| "cssObjAssign (TextNode txt) props = TextNode txt"

fun isElement :: "node \<Rightarrow> bool" where
  "isElement (Element t cn st kids) = True"
| "isElement (TextNode txt) = False"

text \<open>A loop over \<open>miniElement.children\<close> (the element children) that changes each of
  them in place.\<close>

definition forChildren :: "(node \<Rightarrow> node) \<Rightarrow> node \<Rightarrow> node" where
  "forChildren f n =
     (case n of
        Element t cn st kids \<Rightarrow> Element t cn st (map (\<lambda>k. if isElement k then f k else k) kids)
      | TextNode txt \<Rightarrow> TextNode txt)"

text \<open>
  Lines 160 to 183: the preview element is the clone of the source element without the
  two selections, with the marker classes, the \<open>unsearchable\<close> flag on its children when
  \<open>disableFind\<close> is \<open>true\<close>, and pointer events switched off on its children.
\<close>

definition makeMiniElement :: "jsobj \<Rightarrow> node \<Rightarrow> node" where
  "makeMiniElement settings1 baseElement =
     (let mini0 = cloneNode baseElement;
          mini1 = removeNoselectInMinimap False mini0;
          mini2 = removeSelected ''miniregion'' mini1;
          mini3 = addClass mini2 ''minimap noselect'';
          mini4 = (if getProp settings1 ''disableFind'' = JBool True
                   then forChildren (\<lambda>current. addClass current ''unsearchable'') mini3
                   else mini3)
      in forChildren (\<lambda>current. cssObjAssign current [(''pointer-events'', ''none'')]) mini4)"

text \<open>Lines 186 and 187: the region element.\<close>

definition makeRegion :: node where
  "makeRegion = addClass (Element ''div'' [] [] []) ''miniregion''"

text \<open>
  The constructor up to line 192. The document is given by the child nodes of
  \<open>document.body\<close>. The result is the error raised, or the fields of the new instance
  after the first call of the resize handler (line 201), together with the child nodes
  of the body when the constructor returns or raises. The steps after line 192 (find
  suppression on the elements marked \<open>unsearchable\<close>, listeners, cursor and transition
  styles, the setters) remove no node; the find suppression is \<open>disableFind\<close> below,
  on the markup of one element.
\<close>

definition constructor :: "node \<Rightarrow> jsobj \<Rightarrow> node list \<Rightarrow> (error + minimap) \<times> node list" where
  "constructor baseElement options body =
     (case constructorSettings options of
        Inl err \<Rightarrow> (Inl err, body)
      | Inr settings1 \<Rightarrow>
          (let miniElement = makeMiniElement settings1 baseElement;
               region = makeRegion;
               body1 = body @ [region];
               body2 = body1 @ [miniElement];
               this = \<lparr> shown = False, mousedown = False, onSmoothScroll = False,
                        lastTouchType = [], settings = settings1, resizeCalls = 0 \<rparr>
           in (Inr (onResizeHandler this), body2)))"

section \<open>Find suppression\<close>

text \<open>The decoy markup of line 590:
  \<^verbatim>\<open><span style="position:absolute; right:-999999999px;">.</span>\<close>.\<close>

definition decoy :: string where
  "decoy = ''<span style='' @ [CHR 0x22] @ ''position:absolute; right:-999999999px;''
           @ [CHR 0x22] @ ''>.</span>''"

text \<open>
  The loop of \<open>_disableFind\<close> over the characters of one element's \<open>innerHTML\<close>: the
  character, then the decoy unless \<open>stop\<close> is set after the two tests on the character,
  then a second space when the character is a space. The argument is the value of \<open>stop\<close>
  before the character; the result is what the loop appends to \<open>newHTML\<close>.
\<close>

fun disableFindFrom :: "bool \<Rightarrow> string \<Rightarrow> string" where
  "disableFindFrom stop [] = []"
| "disableFindFrom stop (c # cs) =
     (let stop1 = (if c = CHR ''<'' then True else stop);
          stop2 = (if c = CHR ''>'' then False else stop1)
      in [c] @ (if stop2 = False then decoy else [])
             @ (if c = CHR '' '' then '' '' else [])
             @ disableFindFrom stop2 cs)"

definition disableFind :: "string \<Rightarrow> string" where
  "disableFind html = disableFindFrom False html"

text \<open>The same loop with the output kept in pieces, a decoy being one piece, and the
  string the pieces stand for.\<close>

datatype piece = Chr char | Decoy

fun piecesFrom :: "bool \<Rightarrow> string \<Rightarrow> piece list" where
  "piecesFrom stop [] = []"
| "piecesFrom stop (c # cs) =
     (let stop1 = (if c = CHR ''<'' then True else stop);
          stop2 = (if c = CHR ''>'' then False else stop1)
      in [Chr c] @ (if stop2 = False then [Decoy] else [])
                 @ (if c = CHR '' '' then [Chr CHR '' ''] else [])
                 @ piecesFrom stop2 cs)"

fun render :: "piece list \<Rightarrow> string" where
  "render [] = []"
| "render (Chr c # ps) = c # render ps"
| "render (Decoy # ps) = decoy @ render ps"

fun plainChars :: "piece list \<Rightarrow> string" where
  "plainChars [] = []"
| "plainChars (Chr c # ps) = c # plainChars ps"
| "plainChars (Decoy # ps) = plainChars ps"

text \<open>Whether each character of the markup lies inside a tag: from a \<open><\<close> up to, but
  not including, the next \<open>>\<close>.\<close>

fun insideTag :: "bool \<Rightarrow> string \<Rightarrow> bool list" where
  "insideTag stop [] = []"
| "insideTag stop (c # cs) =
     (let inside = (c \<noteq> CHR ''>'' \<and> (c = CHR ''<'' \<or> stop))
      in inside # insideTag inside cs)"

section \<open>Sample inputs\<close>

text \<open>
  A viewport 1000 high over a source element 600 high at the top of the page, with the
  default settings: the vertical scale is 1, the top offset 35, and the region as high
  as the viewport. \<open>shownWorld\<close> is the state after \<open>show()\<close> on a fresh instance at scroll
  offset 0, \<open>hiddenWorld\<close> the state before it.
\<close>

definition sampleGeometry :: geometry where
  "sampleGeometry =
     \<lparr> winWidth = 1200, winHeight = 1000, baseWidth = 1200, baseHeight = 600,
       baseOffsetTop = 0, regionOuterHeight = 1000, baseOuterHeight = 600 \<rparr>"

definition hiddenWorld :: world where
  "hiddenWorld =
     \<lparr> inst = \<lparr> shown = False, mousedown = False, onSmoothScroll = False,
                lastTouchType = [], settings = defaults, resizeCalls = 1 \<rparr>,
       win = \<lparr> scrollX = 0, scrollY = 0, timers = [], nextTimer = 1,
               windowOnSmoothScroll = JUndefined \<rparr> \<rparr>"

definition shownWorld :: world where
  "shownWorld = hiddenWorld\<lparr>inst := (inst hiddenWorld)\<lparr>shown := True, resizeCalls := 2\<rparr>\<rparr>"

definition mouseEventAt :: "string \<Rightarrow> real \<Rightarrow> mouse_event" where
  "mouseEventAt ty y = \<lparr> etype = ty, clientY = y, propagationStopped = False \<rparr>"





section \<open>Verified properties\<close>

lemma getProp_defaults_simps:
  "getProp defaults ''heightRatio'' = JNum (6 / 10)"
  "getProp defaults ''offsetHeightRatio'' = JNum (35 / 1000)"
  "getProp defaults ''smoothScroll'' = JBool True"
  "getProp defaults ''smoothScrollDelay'' = JNum 200"
  "getProp defaults ''position'' = JStr ''right''"
  by (simp_all add: getProp_def defaults_def)

lemma clamp_expression_identity: "max t (min t (m::real)) = t"
  by simp

lemma validDelay_number:
  assumes "smoothScrollDelayValidator v = Inr ()"
  shows "\<exists>d. v = JNum d \<and> 4 \<le> d"
proof (cases v)
  case (JNum x)
  with assms show ?thesis
    by (auto simp: smoothScrollDelayValidator_def split: if_splits)
qed (use assms in \<open>auto simp: smoothScrollDelayValidator_def split: if_splits\<close>)

lemma stepParams_positive:
  assumes "4 \<le> delay" and "0 \<le> distance"
  shows "\<exists>u d. stepParams delay distance = Some (u, d) \<and> 0 < u"
proof (cases "distance = 0")
  case True
  with assms show ?thesis by (simp add: stepParams_def)
next
  case False
  with assms have dpos: "0 < distance" by simp
  with assms have rpos: "0 < delay / distance" by simp
  show ?thesis
  proof (cases "delay / distance \<ge> 4")
    case True
    with False show ?thesis by (simp add: stepParams_def)
  next
    case r4: False
    show ?thesis
    proof (cases "delay / distance \<ge> 1")
      case True
      then have "1 \<le> parseInt (delay / distance)"
        by (simp add: parseInt_def le_floor_iff)
      then have "0 < real_of_int (parseInt (delay / distance)) * 4" by simp
      with False r4 True show ?thesis by (simp add: stepParams_def Let_def)
    next
      case r1: False
      from assms dpos have "delay / distance \<noteq> 0" by simp
      moreover from assms have "0 < delay" by simp
      ultimately show ?thesis using False r4 r1 dpos
        by (simp add: stepParams_def Let_def numDiv_def)
    qed
  qed
qed



lemma map_of_filter_other: "map_of (filter (\<lambda>p. fst p \<noteq> t) xs) t = None"
  by (induction xs) auto

lemma map_of_replace:
  "map_of xs t = Some a \<Longrightarrow>
   map_of (map (\<lambda>p. if fst p = t then (t, b) else p) xs) t = Some b"
  by (induction xs) (auto split: if_splits)


lemma tick_final:
  assumes "map_of (timers (win w)) t = Some a" and "acount a \<le> 1"
  shows "map_of (timers (win (tick t w))) t = None"
    and "scrollY (win (tick t w)) = atarget a"
    and "inst (tick t w) = inst w"
    and "windowOnSmoothScroll (win (tick t w)) = JBool False"
  using assms
  by (simp_all add: tick_def smoothScroll_def Let_def clearInterval_def scrollTo_def
      map_of_filter_other)

lemma tick_step:
  assumes "map_of (timers (win w)) t = Some a" and "1 < acount a"
  shows "map_of (timers (win (tick t w))) t =
           Some (a\<lparr>anext := anext a + stepOf a, acount := acount a - 1\<rparr>)"
    and "scrollY (win (tick t w)) = anext a + stepOf a"
    and "inst (tick t w) = inst w"
  using assms
  by (simp_all add: tick_def smoothScroll_def Let_def scrollTo_def map_of_replace stepOf_def)

lemma ticks_Suc_right: "ticks t (Suc n) w = tick t (ticks t n w)"
  by (induction n arbitrary: w) simp_all

lemma ticks_running:
  assumes "map_of (timers (win w)) t = Some a" and "int k < acount a"
  shows "map_of (timers (win (ticks t k w))) t =
           Some (a\<lparr>anext := anext a + real k * stepOf a, acount := acount a - int k\<rparr>)
         \<and> inst (ticks t k w) = inst w
         \<and> (0 < k \<longrightarrow> scrollY (win (ticks t k w)) = anext a + real k * stepOf a)"
  using assms
proof (induction k)
  case 0
  then show ?case by simp
next
  case (Suc k)
  then have IH: "map_of (timers (win (ticks t k w))) t =
           Some (a\<lparr>anext := anext a + real k * stepOf a, acount := acount a - int k\<rparr>)"
    and I2: "inst (ticks t k w) = inst w"
    by simp_all
  let ?b = "a\<lparr>anext := anext a + real k * stepOf a, acount := acount a - int k\<rparr>"
  from Suc.prems have big: "1 < acount ?b" by simp
  have st: "stepOf ?b = stepOf a" by (simp add: stepOf_def)
  from tick_step[OF IH big] I2 st show ?case
    by (simp add: ticks_Suc_right algebra_simps del: ticks.simps)
qed




lemma ticks_finish:
  assumes run: "map_of (timers (win w)) t = Some a"
  shows "map_of (timers (win (ticks t (nat (max 1 (acount a))) w))) t = None
       \<and> scrollY (win (ticks t (nat (max 1 (acount a))) w)) = atarget a
       \<and> inst (ticks t (nat (max 1 (acount a))) w) = inst w"
proof (cases "acount a \<le> 1")
  case True
  then have "nat (max 1 (acount a)) = Suc 0" by simp
  with tick_final[OF run True] show ?thesis by simp
next
  case False
  define m where "m = nat (acount a - 1)"
  from False have n: "nat (max 1 (acount a)) = Suc m" and k: "int m < acount a"
    and c: "acount a - int m = 1"
    by (simp_all add: m_def)
  let ?b = "a\<lparr>anext := anext a + real m * stepOf a, acount := acount a - int m\<rparr>"
  from ticks_running[OF run k]
  have b: "map_of (timers (win (ticks t m w))) t = Some ?b"
    and i: "inst (ticks t m w) = inst w"
    by simp_all
  from c have le: "acount ?b \<le> 1" by simp
  from tick_final[OF b le] i show ?thesis
    unfolding n ticks_Suc_right by simp
qed



lemma startSmoothScroll_result:
  assumes valid: "smoothScrollDelayValidator (getProp (settings (inst w)) ''smoothScrollDelay'') = Inr ()"
  shows "\<exists>delay u d.
           getProp (settings (inst w)) ''smoothScrollDelay'' = JNum delay \<and> 4 \<le> delay \<and>
           stepParams delay \<bar>scrollY (win w) - target\<bar> = Some (u, d) \<and> 0 < u \<and>
           startSmoothScroll g target w =
             Some (w\<lparr> inst := (inst w)\<lparr>onSmoothScroll := True\<rparr>,
                       win := setInterval
                         \<lparr> anext = scrollY (win w),
                           acount = parseInt (\<bar>scrollY (win w) - target\<bar> / u),
                           adirection = (target > scrollY (win w)), aunitScroll = u,
                           atarget = target, aunitDelay = d \<rparr> (win w) \<rparr>)"
proof -
  from validDelay_number[OF valid] obtain delay
    where v: "getProp (settings (inst w)) ''smoothScrollDelay'' = JNum delay" and d4: "4 \<le> delay"
    by blast
  from stepParams_positive[OF d4, of "\<bar>scrollY (win w) - target\<bar>"] obtain u d
    where sp: "stepParams delay \<bar>scrollY (win w) - target\<bar> = Some (u, d)" and u: "0 < u"
    by auto
  from v sp u have "startSmoothScroll g target w =
             Some (w\<lparr> inst := (inst w)\<lparr>onSmoothScroll := True\<rparr>,
                       win := setInterval
                         \<lparr> anext = scrollY (win w),
                           acount = parseInt (\<bar>scrollY (win w) - target\<bar> / u),
                           adirection = (target > scrollY (win w)), aunitScroll = u,
                           atarget = target, aunitDelay = d \<rparr> (win w) \<rparr>)"
    by (simp add: startSmoothScroll_def Let_def numDiv_def)
  with v d4 sp u show ?thesis by blast
qed


text \<open>
  C10. On an instance whose \<open>shown\<close> flag is false, \<open>scrollTop\<close> returns at once: the event
  and the whole state (window scroll offsets, timers, instance) are what they were, and
  propagation is not stopped. The same holds for a drag move; a click, which goes through
  \<open>scrollTop\<close>, only resets the instance's \<open>mousedown\<close> flag afterwards.
\<close>

theorem hidden_scrollTop_no_effect:
  assumes "\<not> shown (inst w)"
  shows "scrollTop g e w = Some (e, w)
       \<and> onMouseMoveHandler g e w = Some (e, w)
       \<and> onClickHandler g e w = Some (e, w\<lparr>inst := (inst w)\<lparr>mousedown := False\<rparr>\<rparr>)"
  using assms by (simp add: scrollTop_def onMouseMoveHandler_def onClickHandler_def)

theorem hidden_scrollTop_no_effect_witness:
  "\<not> shown (inst hiddenWorld)
   \<and> scrollTop sampleGeometry (mouseEventAt ''click'' 100) hiddenWorld
       = Some (mouseEventAt ''click'' 100, hiddenWorld)
   \<and> onMouseMoveHandler sampleGeometry (mouseEventAt ''mousemove'' 100) hiddenWorld
       = Some (mouseEventAt ''mousemove'' 100, hiddenWorld)
   \<and> scrollY (win hiddenWorld) = 0 \<and> timers (win hiddenWorld) = []"
proof -
  have h: "\<not> shown (inst hiddenWorld)" by (simp add: hiddenWorld_def)
  from hidden_scrollTop_no_effect[OF h, of sampleGeometry "mouseEventAt ''click'' 100"]
    hidden_scrollTop_no_effect[OF h, of sampleGeometry "mouseEventAt ''mousemove'' 100"] h
  show ?thesis by (simp add: hiddenWorld_def)
qed

lemma sample_eventTarget:
  "eventTarget sampleGeometry (inst shownWorld) (mouseEventAt ty y) = Some (y - 535)"
  by (simp add: eventTarget_def scaleOf_def sampleGeometry_def shownWorld_def hiddenWorld_def
      getProp_defaults_simps numDiv_def mouseEventAt_def Let_def)


lemma scrollTop_smooth_click:
  assumes "shown (inst w)" and "etype e = ''click''"
    and "toBoolean (getProp (settings (inst w)) ''smoothScroll'')"
    and "eventTarget g (inst w) e = Some target"
  shows "scrollTop g e w =
           (case startSmoothScroll g target w of
              None \<Rightarrow> None
            | Some w' \<Rightarrow> Some (e\<lparr>propagationStopped := True\<rparr>, w'))"
  using assms by (simp add: scrollTop_def)

text \<open>
  C1. The claim is that a click with smooth scrolling enabled animates towards the target
  clamped into \<open>[0, sourceOuterHeight]\<close>. The expression of line 532,
  \<^verbatim>\<open>Math.max(target, Math.min(target, maxTarget))\<close>, returns \<open>target\<close> itself
  (\<open>clamp_expression_identity\<close>), so the destination of the animation is the raw target of
  line 525, also when that lies outside the interval: a click at \<open>clientY = 100\<close> in the
  sample geometry animates towards \<open>-435\<close>.
\<close>

theorem smooth_click_destination_is_raw_target:
  assumes "shown (inst w)" and "etype e = ''click''"
    and "toBoolean (getProp (settings (inst w)) ''smoothScroll'')"
    and "eventTarget g (inst w) e = Some target"
    and "scrollTop g e w = Some (e', w')"
  shows "\<exists>a. timers (win w') = timers (win w) @ [(nextTimer (win w), a)] \<and> atarget a = target"
proof -
  from assms scrollTop_smooth_click[OF assms(1-4)]
  have "startSmoothScroll g target w = Some w'"
    by (auto split: option.splits)
  then show ?thesis
    by (auto simp: startSmoothScroll_def Let_def setInterval_def split: option.splits)
qed

theorem smooth_click_destination_is_raw_target_witness:
  "\<exists>w' a. scrollTop sampleGeometry (mouseEventAt ''click'' 100) shownWorld
             = Some ((mouseEventAt ''click'' 100)\<lparr>propagationStopped := True\<rparr>, w')
        \<and> timers (win w') = [(1, a)] \<and> atarget a = - 435
        \<and> baseOuterHeight sampleGeometry = 600"
proof -
  have s: "shown (inst shownWorld)" by (simp add: shownWorld_def)
  have c: "etype (mouseEventAt ''click'' 100) = ''click''" by (simp add: mouseEventAt_def)
  have b: "toBoolean (getProp (settings (inst shownWorld)) ''smoothScroll'')"
    by (simp add: shownWorld_def hiddenWorld_def getProp_defaults_simps)
  have t: "eventTarget sampleGeometry (inst shownWorld) (mouseEventAt ''click'' 100) = Some (- 435)"
    by (simp add: sample_eventTarget)
  have v: "smoothScrollDelayValidator (getProp (settings (inst shownWorld)) ''smoothScrollDelay'') = Inr ()"
    by (simp add: shownWorld_def hiddenWorld_def getProp_defaults_simps
        smoothScrollDelayValidator_def toInt32_def parseInt_def)
  from startSmoothScroll_result[OF v, of "- 435" sampleGeometry] obtain w'
    where st: "startSmoothScroll sampleGeometry (- 435) shownWorld = Some w'" by blast
  with scrollTop_smooth_click[OF s c b t]
  have r: "scrollTop sampleGeometry (mouseEventAt ''click'' 100) shownWorld
             = Some ((mouseEventAt ''click'' 100)\<lparr>propagationStopped := True\<rparr>, w')"
    by simp
  from smooth_click_destination_is_raw_target[OF s c b t r]
  obtain a where "timers (win w') = timers (win shownWorld) @ [(nextTimer (win shownWorld), a)]"
    and "atarget a = - 435" by blast
  with r show ?thesis
    by (auto simp: shownWorld_def hiddenWorld_def sampleGeometry_def)
qed

lemma sample_valid_delay:
  "smoothScrollDelayValidator (getProp (settings (inst shownWorld)) ''smoothScrollDelay'') = Inr ()"
  by (simp add: shownWorld_def hiddenWorld_def getProp_defaults_simps
      smoothScrollDelayValidator_def toInt32_def parseInt_def)



lemma sample_start_1000:
  "startSmoothScroll sampleGeometry 1000 shownWorld =
     Some (shownWorld\<lparr> inst := (inst shownWorld)\<lparr>onSmoothScroll := True\<rparr>,
                        win := (win shownWorld)\<lparr> timers := [(1, \<lparr> anext = 0, acount = 50,
                             adirection = True, aunitScroll = 20, atarget = 1000,
                             aunitDelay = 4 \<rparr>)], nextTimer := 2 \<rparr> \<rparr>)"
  by (simp add: startSmoothScroll_def shownWorld_def hiddenWorld_def getProp_defaults_simps
      stepParams_def numDiv_def parseInt_def setInterval_def Let_def sampleGeometry_def)





lemma tick_inst: "inst (tick t w) = inst w"
  by (simp add: tick_def smoothScroll_def Let_def split: option.splits)

lemma ticks_inst: "inst (ticks t k w) = inst w"
  by (induction k arbitrary: w) (simp_all add: tick_inst)

lemma ticks_finish_window:
  assumes run: "map_of (timers (win w)) t = Some a"
  shows "windowOnSmoothScroll (win (ticks t (nat (max 1 (acount a))) w)) = JBool False"
proof (cases "acount a \<le> 1")
  case True
  then have "nat (max 1 (acount a)) = Suc 0" by simp
  with tick_final[OF run True] show ?thesis by simp
next
  case False
  define m where "m = nat (acount a - 1)"
  from False have n: "nat (max 1 (acount a)) = Suc m" and k: "int m < acount a"
    and c: "acount a - int m = 1"
    by (simp_all add: m_def)
  let ?b = "a\<lparr>anext := anext a + real m * stepOf a, acount := acount a - int m\<rparr>"
  from ticks_running[OF run k]
  have b: "map_of (timers (win (ticks t m w))) t = Some ?b" by simp
  from c have le: "acount ?b \<le> 1" by simp
  from tick_final[OF b le] show ?thesis
    unfolding n ticks_Suc_right by simp
qed

text \<open>
  C2. The claim is that the instance's \<open>onSmoothScroll\<close> field goes back to false on the final
  tick, so that drag moves scroll again after the animation. Starting the animation sets
  the field, and a drag move is ignored while it is set; but no firing of any timer
  changes the instance (\<open>ticks_inst\<close>): the callback's \<^verbatim>\<open>this.onSmoothScroll = false\<close> writes
  the window's property. After a smooth click the field stays true for good, and every
  later drag move, also after the animation has ended, returns without scrolling. The
  legacy implementation (\<open>src/minimap-old.js\<close>) keeps the flag in a closure variable, which
  its callback does reset.
\<close>

theorem instance_flag_survives_animation:
  assumes shown: "shown (inst w)"
    and click: "etype e = ''click''"
    and smooth: "toBoolean (getProp (settings (inst w)) ''smoothScroll'')"
    and valid: "smoothScrollDelayValidator (getProp (settings (inst w)) ''smoothScrollDelay'') = Inr ()"
    and tgt: "eventTarget g (inst w) e = Some target"
  shows "\<exists>w'. scrollTop g e w = Some (e\<lparr>propagationStopped := True\<rparr>, w') \<and>
              onSmoothScroll (inst w') \<and>
              (\<forall>t k. onSmoothScroll (inst (ticks t k w')) \<and>
                     (\<forall>g2 e2. onMouseMoveHandler g2 e2 (onMouseDownHandler (ticks t k w'))
                                = Some (e2, onMouseDownHandler (ticks t k w'))))"
proof -
  from startSmoothScroll_result[OF valid, of target g] obtain w'
    where st: "startSmoothScroll g target w = Some w'" and f: "onSmoothScroll (inst w')"
    by auto
  have r: "scrollTop g e w = Some (e\<lparr>propagationStopped := True\<rparr>, w')"
    using scrollTop_smooth_click[OF shown click smooth tgt] st by simp
  have "onSmoothScroll (inst (ticks t k w'))" for t k
    using f by (simp add: ticks_inst)
  then have "onSmoothScroll (inst (ticks t k w')) \<and>
             (\<forall>g2 e2. onMouseMoveHandler g2 e2 (onMouseDownHandler (ticks t k w'))
                                = Some (e2, onMouseDownHandler (ticks t k w')))" for t k
    by (simp add: onMouseMoveHandler_def onMouseDownHandler_def)
  with r f show ?thesis by blast
qed

theorem instance_flag_survives_animation_witness:
  "\<exists>w'. scrollTop sampleGeometry (mouseEventAt ''click'' 1535) shownWorld
            = Some ((mouseEventAt ''click'' 1535)\<lparr>propagationStopped := True\<rparr>, w')
      \<and> map_of (timers (win (ticks 1 50 w'))) 1 = None
      \<and> scrollY (win (ticks 1 50 w')) = 1000
      \<and> windowOnSmoothScroll (win (ticks 1 50 w')) = JBool False
      \<and> onSmoothScroll (inst (ticks 1 50 w'))
      \<and> shown (inst (onMouseDownHandler (ticks 1 50 w')))
      \<and> mousedown (inst (onMouseDownHandler (ticks 1 50 w')))
      \<and> onMouseMoveHandler sampleGeometry (mouseEventAt ''mousemove'' 700)
            (onMouseDownHandler (ticks 1 50 w'))
          = Some (mouseEventAt ''mousemove'' 700, onMouseDownHandler (ticks 1 50 w'))"
proof -
  have s: "shown (inst shownWorld)" by (simp add: shownWorld_def)
  have c: "etype (mouseEventAt ''click'' 1535) = ''click''" by (simp add: mouseEventAt_def)
  have b: "toBoolean (getProp (settings (inst shownWorld)) ''smoothScroll'')"
    by (simp add: shownWorld_def hiddenWorld_def getProp_defaults_simps)
  have t: "eventTarget sampleGeometry (inst shownWorld) (mouseEventAt ''click'' 1535) = Some 1000"
    by (simp add: sample_eventTarget)
  from instance_flag_survives_animation[OF s c b sample_valid_delay t]
  obtain w' where r: "scrollTop sampleGeometry (mouseEventAt ''click'' 1535) shownWorld
          = Some ((mouseEventAt ''click'' 1535)\<lparr>propagationStopped := True\<rparr>, w')"
    and fl: "onSmoothScroll (inst (ticks 1 50 w'))"
    and mv: "onMouseMoveHandler sampleGeometry (mouseEventAt ''mousemove'' 700)
            (onMouseDownHandler (ticks 1 50 w'))
          = Some (mouseEventAt ''mousemove'' 700, onMouseDownHandler (ticks 1 50 w'))"
    by blast
  from r scrollTop_smooth_click[OF s c b t] sample_start_1000
  have w': "w' = shownWorld\<lparr> inst := (inst shownWorld)\<lparr>onSmoothScroll := True\<rparr>,
                        win := (win shownWorld)\<lparr> timers := [(1, \<lparr> anext = 0, acount = 50,
                             adirection = True, aunitScroll = 20, atarget = 1000,
                             aunitDelay = 4 \<rparr>)], nextTimer := 2 \<rparr> \<rparr>"
    by simp
  let ?a = "\<lparr> anext = 0, acount = 50, adirection = True, aunitScroll = 20, atarget = 1000,
              aunitDelay = 4 \<rparr> :: animation"
  have m: "map_of (timers (win w')) 1 = Some ?a" by (simp add: w')
  have n50: "nat (max 1 (acount ?a)) = 50" and tg: "atarget ?a = 1000" by simp_all
  from ticks_finish[OF m, unfolded n50 tg] ticks_finish_window[OF m, unfolded n50]
  have "map_of (timers (win (ticks 1 50 w'))) 1 = None"
    and "scrollY (win (ticks 1 50 w')) = 1000"
    and "windowOnSmoothScroll (win (ticks 1 50 w')) = JBool False"
    by blast+
  moreover have "shown (inst (onMouseDownHandler (ticks 1 50 w')))"
    and "mousedown (inst (onMouseDownHandler (ticks 1 50 w')))"
    by (simp_all add: onMouseDownHandler_def ticks_inst w' shownWorld_def)
  ultimately show ?thesis using r fl mv by blast
qed

lemma toInt32_range: "- (2 ^ 31) \<le> toInt32 v \<and> toInt32 v < 2 ^ 31"
proof (cases "toNumber v")
  case None
  then show ?thesis by (simp add: toInt32_def)
next
  case (Some x)
  have "0 \<le> parseInt x mod 2 ^ 32" and "parseInt x mod 2 ^ 32 < 2 ^ 32"
    by simp_all
  with Some show ?thesis by (auto simp: toInt32_def Let_def)
qed

lemma toInt32_of_int:
  assumes "- (2 ^ 31) \<le> n" and "n < 2 ^ 31"
  shows "toInt32 (JNum (real_of_int n)) = n"
proof -
  have p: "parseInt (real_of_int n) = n" by (simp add: parseInt_def)
  show ?thesis
  proof (cases "0 \<le> n")
    case True
    with assms have "n mod 2 ^ 32 = n" by simp
    with assms p show ?thesis by (simp add: toInt32_def Let_def)
  next
    case False
    with assms have "(n + 2 ^ 32) mod 2 ^ 32 = n + 2 ^ 32"
      by (intro mod_pos_pos_trivial) simp_all
    then have "n mod 2 ^ 32 = n + 2 ^ 32" by simp
    with assms p False show ?thesis by (simp add: toInt32_def Let_def)
  qed
qed

text \<open>
  C5. The claim is that \<open>smoothScrollDelay\<close> is accepted exactly when it is an integer of at
  least 4. The integrality test of the validator is \<^verbatim>\<open>(value | 0) !== value\<close>, which also
  rejects every number outside the signed 32-bit range: \<open>2147483648\<close> is an integer of at
  least 4 and is rejected. Amended: a value is accepted exactly when it is a number that
  is an integer from 4 to \<open>2147483647\<close>. The values 4 and 500 are accepted; 3, 4.5 and -5
  are rejected.
\<close>

theorem smoothScrollDelay_accepts_int32_from_4:
  "smoothScrollDelayValidator v = Inr () \<longleftrightarrow>
     (\<exists>n::int. v = JNum (real_of_int n) \<and> 4 \<le> n \<and> n \<le> 2147483647)"
proof
  assume ok: "smoothScrollDelayValidator v = Inr ()"
  then obtain x where v: "v = JNum x"
    by (cases v) (auto simp: smoothScrollDelayValidator_def split: if_splits)
  from ok v have eq: "real_of_int (toInt32 v) = x" and ge: "4 \<le> x"
    by (auto simp: smoothScrollDelayValidator_def split: if_splits)
  from toInt32_range[of v] have "toInt32 v \<le> 2147483647" by simp
  moreover from eq ge have "4 \<le> toInt32 v" by linarith
  ultimately show "\<exists>n::int. v = JNum (real_of_int n) \<and> 4 \<le> n \<and> n \<le> 2147483647"
    using v eq by (intro exI[of _ "toInt32 v"]) simp
next
  assume "\<exists>n::int. v = JNum (real_of_int n) \<and> 4 \<le> n \<and> n \<le> 2147483647"
  then obtain n :: int where v: "v = JNum (real_of_int n)" and lo: "4 \<le> n" and hi: "n \<le> 2147483647"
    by blast
  from lo hi have "toInt32 (JNum (real_of_int n)) = n"
    by (intro toInt32_of_int) simp_all
  with v lo show "smoothScrollDelayValidator v = Inr ()"
    by (simp add: smoothScrollDelayValidator_def)
qed

theorem smoothScrollDelay_accepts_int32_from_4_witness:
  "smoothScrollDelayValidator (JNum 4) = Inr ()
   \<and> smoothScrollDelayValidator (JNum 500) = Inr ()
   \<and> smoothScrollDelayValidator (JNum 2147483647) = Inr ()
   \<and> smoothScrollDelayValidator (JNum 3) \<noteq> Inr ()
   \<and> smoothScrollDelayValidator (JNum (- 5)) \<noteq> Inr ()
   \<and> smoothScrollDelayValidator (JNum (9 / 2)) \<noteq> Inr ()"
proof -
  have "smoothScrollDelayValidator (JNum (real_of_int 4)) = Inr ()"
    and "smoothScrollDelayValidator (JNum (real_of_int 500)) = Inr ()"
    and "smoothScrollDelayValidator (JNum (real_of_int 2147483647)) = Inr ()"
    unfolding smoothScrollDelay_accepts_int32_from_4 by auto
  moreover have "smoothScrollDelayValidator (JNum (real_of_int 3)) \<noteq> Inr ()"
    and "smoothScrollDelayValidator (JNum (real_of_int (- 5))) \<noteq> Inr ()"
    unfolding smoothScrollDelay_accepts_int32_from_4 by auto
  moreover have "smoothScrollDelayValidator (JNum (9 / 2)) \<noteq> Inr ()"
  proof
    assume "smoothScrollDelayValidator (JNum (9 / 2)) = Inr ()"
    then obtain n :: int where "(9 / 2 :: real) = real_of_int n"
      unfolding smoothScrollDelay_accepts_int32_from_4 by auto
    then have "real_of_int (2 * n) = 9" by simp
    then have "2 * n = 9" by linarith
    then show False by presburger
  qed
  ultimately show ?thesis by simp
qed

theorem smoothScrollDelay_rejects_two_to_31:
  "(2147483648 :: real) = real_of_int 2147483648 \<and> (4 :: int) \<le> 2147483648
   \<and> smoothScrollDelayValidator (JNum 2147483648)
       = Inl (Error ''Invalid smoothScrollDelay(in ms): '' (JNum 2147483648))"
  by (simp add: smoothScrollDelayValidator_def toInt32_def parseInt_def)

lemma validateProps_defaults: "validateProps defaults = Inr ()"
  by code_simp


lemma constructorSettings_Right: "constructorSettings [(''position'', JStr ''Right'')] = Inr defaults"
  by code_simp

lemma constructorSettings_right: "constructorSettings [(''position'', JStr ''right'')] = Inr defaults"
  by code_simp



text \<open>
  C6. The claim is that \<open>"Right"\<close> is accepted by the constructor and by \<open>setPosition\<close> and
  behaves like \<open>"right"\<close>. The constructor lower-cases \<open>position\<close> before it validates, so
  the two options give the same settings and the same construction. \<open>setPosition\<close>
  validates its argument as it is: \<open>"Right"\<close> raises \<open>Invalid position: Right\<close> and leaves
  the instance unchanged, while \<open>"right"\<close> is accepted. The legacy implementation
  (\<open>src/minimap-old.js\<close>) lower-cases inside the validation that its \<open>setPosition\<close> calls.
\<close>

theorem setPosition_rejects_capitalised:
  "constructorSettings [(''position'', JStr ''Right'')] = constructorSettings [(''position'', JStr ''right'')]
   \<and> constructorSettings [(''position'', JStr ''Right'')] = Inr defaults
   \<and> constructor baseElement [(''position'', JStr ''Right'')] body
       = constructor baseElement [(''position'', JStr ''right'')] body
   \<and> setPosition (JStr ''Right'') m = (Some (Error ''Invalid position: '' (JStr ''Right'')), m)
   \<and> fst (setPosition (JStr ''right'') m) = None"
proof -
  have "setPosition (JStr ''Right'') m = (Some (Error ''Invalid position: '' (JStr ''Right'')), m)"
    by (simp add: setPosition_def positionValidator_def validPositions_def)
  moreover have "fst (setPosition (JStr ''right'') m) = None"
    by (simp add: setPosition_def positionValidator_def validPositions_def Let_def)
  ultimately show ?thesis
    by (simp add: constructorSettings_Right constructorSettings_right constructor_def)
qed

theorem setPosition_rejects_capitalised_witness:
  "getProp (settings (inst shownWorld)) ''position'' = JStr ''right''
   \<and> setPosition (JStr ''Right'') (inst shownWorld)
       = (Some (Error ''Invalid position: '' (JStr ''Right'')), inst shownWorld)
   \<and> setPosition (JStr ''right'') (inst shownWorld) = (None, inst shownWorld)"
proof -
  have p: "getProp (settings (inst shownWorld)) ''position'' = JStr ''right''"
    by (simp add: shownWorld_def hiddenWorld_def getProp_defaults_simps)
  have "setProp defaults ''position'' (JStr ''right'') = defaults" by code_simp
  then have "setPosition (JStr ''right'') (inst shownWorld) = (None, inst shownWorld)"
    by (simp add: setPosition_def positionValidator_def validPositions_def Let_def
        shownWorld_def hiddenWorld_def getProp_defaults_simps)
  with p setPosition_rejects_capitalised[of "TextNode []" "[]" "inst shownWorld"]
  show ?thesis by simp
qed

lemma render_append: "render (ps @ qs) = render ps @ render qs"
  by (induction ps rule: render.induct) simp_all

lemma plainChars_append: "plainChars (ps @ qs) = plainChars ps @ plainChars qs"
  by (induction ps rule: plainChars.induct) simp_all

lemma render_piecesFrom: "render (piecesFrom stop html) = disableFindFrom stop html"
  by (induction html arbitrary: stop) (simp_all add: Let_def render_append)

lemma plainChars_piecesFrom:
  "plainChars (piecesFrom stop html) = concat (map (\<lambda>c. if c = CHR '' '' then [c, c] else [c]) html)"
  by (induction html arbitrary: stop) (simp_all add: Let_def plainChars_append)

lemma length_insideTag: "length (insideTag stop html) = length html"
  by (induction html arbitrary: stop) (simp_all add: Let_def)

lemma piecesFrom_insideTag:
  "piecesFrom stop html =
     concat (map (\<lambda>(c, inside). Chr c # (if inside then [] else [Decoy])
                                  @ (if c = CHR '' '' then [Chr CHR '' ''] else []))
                 (zip html (insideTag stop html)))"
  by (induction html arbitrary: stop) (auto simp add: Let_def)

text \<open>
  C9. The claim is that the transform puts a decoy after every character outside a tag
  that is not a space, none after a space, and that the output without the decoys is the
  original markup. The loop tests only \<open>stop\<close> before it appends the decoy, and appends a
  second space after every space: in \<open>a b\<close> the space is followed by a decoy and written
  twice. Amended: the output is, for each character in turn, the character, then one
  decoy unless the character lies inside a tag (from a \<open><\<close> up to but not including the
  next \<open>>\<close>), so also after a space outside a tag and after the closing \<open>>\<close>, then a
  second space when the character is a space; the output without the decoys is the
  original markup with every space doubled.
\<close>

theorem find_suppression_output:
  "disableFind html = render (piecesFrom False html)
   \<and> piecesFrom False html =
       concat (map (\<lambda>(c, inside). Chr c # (if inside then [] else [Decoy])
                                    @ (if c = CHR '' '' then [Chr CHR '' ''] else []))
                   (zip html (insideTag False html)))
   \<and> plainChars (piecesFrom False html) =
       concat (map (\<lambda>c. if c = CHR '' '' then [c, c] else [c]) html)"
  by (simp add: disableFind_def render_piecesFrom plainChars_piecesFrom
      piecesFrom_insideTag[symmetric])

theorem find_suppression_output_witness:
  "insideTag False ''<b>x y</b>'' = [True, True, False, False, False, False, True, True, True, False]
   \<and> piecesFrom False ''<b>x y</b>'' =
       [Chr CHR ''<'', Chr CHR ''b'', Chr CHR ''>'', Decoy, Chr CHR ''x'', Decoy,
        Chr CHR '' '', Decoy, Chr CHR '' '', Chr CHR ''y'', Decoy,
        Chr CHR ''<'', Chr CHR ''/'', Chr CHR ''b'', Chr CHR ''>'', Decoy]
   \<and> plainChars (piecesFrom False ''<b>x y</b>'') = ''<b>x  y</b>''
   \<and> disableFind ''<b>x y</b>'' =
       ''<b>'' @ decoy @ ''x'' @ decoy @ '' '' @ decoy @ '' y'' @ decoy @ ''</b>'' @ decoy"
proof -
  have i: "insideTag False ''<b>x y</b>'' = [True, True, False, False, False, False, True, True, True, False]"
    by code_simp
  note t = find_suppression_output[of "''<b>x y</b>''"]
  from t have p: "piecesFrom False ''<b>x y</b>'' =
       [Chr CHR ''<'', Chr CHR ''b'', Chr CHR ''>'', Decoy, Chr CHR ''x'', Decoy,
        Chr CHR '' '', Decoy, Chr CHR '' '', Chr CHR ''y'', Decoy,
        Chr CHR ''<'', Chr CHR ''/'', Chr CHR ''b'', Chr CHR ''>'', Decoy]"
    unfolding i by simp
  from t have c: "plainChars (piecesFrom False ''<b>x y</b>'') = ''<b>x  y</b>''"
    by simp
  from t have "disableFind ''<b>x y</b>'' = render (piecesFrom False ''<b>x y</b>'')" by blast
  then have "disableFind ''<b>x y</b>'' =
       ''<b>'' @ decoy @ ''x'' @ decoy @ '' '' @ decoy @ '' y'' @ decoy @ ''</b>'' @ decoy"
    unfolding p by simp
  with i p c show ?thesis by blast
qed

theorem find_suppression_decorates_spaces:
  "piecesFrom False ''a b'' =
     [Chr CHR ''a'', Decoy, Chr CHR '' '', Decoy, Chr CHR '' '', Chr CHR ''b'', Decoy]
   \<and> disableFind ''a b'' = ''a'' @ decoy @ '' '' @ decoy @ '' b'' @ decoy
   \<and> plainChars (piecesFrom False ''a b'') = ''a  b''
   \<and> plainChars (piecesFrom False ''a b'') \<noteq> ''a b''"
  by (simp add: disableFind_def Let_def)























end
